theory Spec2Isabelle
  imports Main
begin

section \<open>Data model\<close>

text \<open>
  The service of \<^verbatim>\<open>src/main.go\<close> keeps one entity, \<^verbatim>\<open>Item\<close>, in a relational
  table and mirrors recently seen items in a process-wide map \<^verbatim>\<open>cache\<close>. Go's
  \<^verbatim>\<open>int\<close> carries no arithmetic in this program (ids are only stored, compared and
  used as map keys), so it is modelled by \<open>int\<close>. The repository's second program has
  the same handlers without the cache, each on a route of its own; the properties below
  are about the cached service and its router.
\<close>

record Item =
  ID :: int
  Title :: string

definition zeroItem :: Item where
  \<comment> \<open>\<^verbatim>\<open>var item Item\<close>: every field at its zero value.\<close>
  "zeroItem = \<lparr>ID = 0, Title = ''''\<rparr>"

text \<open>
  A Go slice is either \<^verbatim>\<open>nil\<close> or a (possibly empty) sequence; the JSON encoder tells
  the two apart, so the model does too.
\<close>

datatype 'a slice = NilSlice | Slice "'a list"

definition make0 :: "'a slice" where
  \<comment> \<open>\<^verbatim>\<open>make([]Item, 0)\<close>\<close>
  "make0 = Slice []"

fun append_slice :: "'a slice \<Rightarrow> 'a \<Rightarrow> 'a slice" where
  "append_slice NilSlice x = Slice [x]"
| "append_slice (Slice xs) x = Slice (xs @ [x])"

section \<open>strconv.ParseInt\<close>

text \<open>
  The handlers turn the \<^verbatim>\<open>id\<close> query parameter into a cache key with
  \<^verbatim>\<open>strconv.ParseInt(id, 0, 32)\<close> and drop the error. The function belongs to the
  Go standard library; it is transcribed here because its result on a failed parse
  decides which cache key a request touches. Unsigned 64-bit arithmetic is written
  with \<open>mod 2 ^ 64\<close>.
\<close>

datatype numError = ErrSyntax | ErrRange | ErrBase | ErrBitSize

definition byte :: "char \<Rightarrow> nat" where
  "byte c = of_char c"

definition lower :: "char \<Rightarrow> nat" where
  \<comment> \<open>\<^verbatim>\<open>c | ('x' - 'X')\<close>\<close>
  "lower c = or (byte c) 32"

definition maxUint64 :: int where
  "maxUint64 = 2 ^ 64 - 1"

definition digitVal :: "char \<Rightarrow> int option" where
  \<comment> \<open>The \<^verbatim>\<open>switch\<close> on \<^verbatim>\<open>c\<close> in the digit loop, after the underscore case.\<close>
  "digitVal c =
     (if 48 \<le> byte c \<and> byte c \<le> 57 then Some (int (byte c) - 48)
      else if 97 \<le> lower c \<and> lower c \<le> 122 then Some (int (lower c) - 97 + 10)
      else None)"

text \<open>
  The digit loop of \<^verbatim>\<open>ParseUint\<close>. Its result is the pair returned on an early exit, or
  the accumulated number together with the \<^verbatim>\<open>underscores\<close> flag.
\<close>

fun digitLoop ::
  "bool \<Rightarrow> int \<Rightarrow> int \<Rightarrow> int \<Rightarrow> string \<Rightarrow> int \<Rightarrow> bool \<Rightarrow> (int \<times> numError) + (int \<times> bool)" where
  "digitLoop base0 base cutoff maxVal [] n us = Inr (n, us)"
| "digitLoop base0 base cutoff maxVal (c # cs) n us =
     (if c = CHR ''_'' \<and> base0 then digitLoop base0 base cutoff maxVal cs n True
      else
        (case digitVal c of
           None \<Rightarrow> Inl (0, ErrSyntax)
         | Some d \<Rightarrow>
             if d \<ge> base then Inl (0, ErrSyntax)
             else if n \<ge> cutoff then Inl (maxVal, ErrRange)
             else
               (let n' = (n * base) mod 2 ^ 64;
                    n1 = (n' + d) mod 2 ^ 64
                in if n1 < n' \<or> n1 > maxVal then Inl (maxVal, ErrRange)
                   else digitLoop base0 base cutoff maxVal cs n1 us)))"

text \<open>
  \<^verbatim>\<open>underscoreOK\<close>: underscores may only separate digits, or a base prefix from a digit.
  The variable \<^verbatim>\<open>i\<close> records the kind of the previous character.
\<close>

datatype prevKind = Start | Digit | Underscore | Other

fun underscoreScan :: "bool \<Rightarrow> prevKind \<Rightarrow> string \<Rightarrow> bool" where
  "underscoreScan hex i [] = (i \<noteq> Underscore)"
| "underscoreScan hex i (c # cs) =
     (if (48 \<le> byte c \<and> byte c \<le> 57) \<or> (hex \<and> 97 \<le> lower c \<and> lower c \<le> 102)
      then underscoreScan hex Digit cs
      else if c = CHR ''_''
      then (if i \<noteq> Digit then False else underscoreScan hex Underscore cs)
      else if i = Underscore then False
      else underscoreScan hex Other cs)"

definition stripSign :: "string \<Rightarrow> string" where
  "stripSign s =
     (case s of
        c # cs \<Rightarrow> if c = CHR ''-'' \<or> c = CHR ''+'' then cs else s
      | [] \<Rightarrow> s)"

definition underscoreOK :: "string \<Rightarrow> bool" where
  "underscoreOK s0 =
     (let s = stripSign s0
      in case s of
           c0 # c1 # rest \<Rightarrow>
             if c0 = CHR ''0'' \<and> (lower c1 = 98 \<or> lower c1 = 111 \<or> lower c1 = 120)
             then underscoreScan (lower c1 = 120) Digit rest
             else underscoreScan False Start s
         | _ \<Rightarrow> underscoreScan False Start s)"

definition ParseUint :: "string \<Rightarrow> int \<Rightarrow> int \<Rightarrow> int \<times> numError option" where
  "ParseUint s0 base bitSize =
     (if s0 = [] then (0, Some ErrSyntax)
      else
        (let base0 = (base = 0);
             (base', s) =
               (if base = 0 then
                  (if hd s0 = CHR ''0'' then
                     (if length s0 \<ge> 3 \<and> lower (s0 ! 1) = 98 then (2, drop 2 s0)
                      else if length s0 \<ge> 3 \<and> lower (s0 ! 1) = 111 then (8, drop 2 s0)
                      else if length s0 \<ge> 3 \<and> lower (s0 ! 1) = 120 then (16, drop 2 s0)
                      else (8, drop 1 s0))
                   else (10, s0))
                else (base, s0))
         in if \<not> (base = 0 \<or> (2 \<le> base \<and> base \<le> 36)) then (0, Some ErrBase)
            else if bitSize < 0 \<or> bitSize > 64 then (0, Some ErrBitSize)
            else
              (let bits = (if bitSize = 0 then 64 else bitSize);
                   cutoff = maxUint64 div base' + 1;
                   maxVal = 2 ^ nat bits - 1
               in case digitLoop base0 base' cutoff maxVal s 0 False of
                    Inl (v, e) \<Rightarrow> (v, Some e)
                  | Inr (n, underscores) \<Rightarrow>
                      if underscores \<and> \<not> underscoreOK s0 then (0, Some ErrSyntax)
                      else (n, None))))"

definition ParseInt :: "string \<Rightarrow> int \<Rightarrow> int \<Rightarrow> int \<times> numError option" where
  "ParseInt s0 base bitSize =
     (if s0 = [] then (0, Some ErrSyntax)
      else
        (let neg = (hd s0 = CHR ''-'');
             s = (if hd s0 = CHR ''+'' \<or> hd s0 = CHR ''-'' then tl s0 else s0)
         in case ParseUint s base bitSize of
              (un, Some ErrSyntax) \<Rightarrow> (0, Some ErrSyntax)
            | (un, Some ErrBase) \<Rightarrow> (0, Some ErrBase)
            | (un, Some ErrBitSize) \<Rightarrow> (0, Some ErrBitSize)
            | (un, _) \<Rightarrow>
                (let bits = (if bitSize = 0 then 64 else bitSize);
                     cutoff = 2 ^ nat (bits - 1)
                 in if \<not> neg \<and> un \<ge> cutoff then (cutoff - 1, Some ErrRange)
                    else if neg \<and> un > cutoff then (- cutoff, Some ErrRange)
                    else (if neg then - un else un, None))))"

text \<open>
  The decimal numeral of an integer, as \<^verbatim>\<open>strconv.Itoa\<close> writes it and as a client
  writes \<^verbatim>\<open>?id=N\<close>: digits taken from the digit string, most significant first, with a
  leading minus sign for a negative number.
\<close>

definition digitChar :: "nat \<Rightarrow> char" where
  "digitChar k = ''0123456789'' ! k"

fun decimalNat :: "nat \<Rightarrow> string" where
  "decimalNat n =
     (if n < 10 then [digitChar n]
      else decimalNat (n div 10) @ [digitChar (n mod 10)])"

definition Itoa :: "int \<Rightarrow> string" where
  "Itoa i = (if i < 0 then CHR ''-'' # decimalNat (nat (- i)) else decimalNat (nat i))"

section \<open>Requests and responses\<close>

text \<open>
  A request is reduced to what the handlers read: the method, the parsed query string
  and the body. The body is represented by what \<^verbatim>\<open>json.Decoder.Decode\<close> makes of it
  for the target type \<^verbatim>\<open>Item\<close>: either a decoding error, or the values of the
  \<^verbatim>\<open>id\<close> and \<^verbatim>\<open>title\<close> members, each of which may be missing.
\<close>

datatype body = BadJSON string | Members "int option" "string option"

record Request =
  Method :: string
  Query :: "(string \<times> string) list"
  Body :: body

definition Get :: "(string \<times> string) list \<Rightarrow> string \<Rightarrow> string" where
  \<comment> \<open>\<^verbatim>\<open>url.Values.Get\<close>: the first value of the key, or the empty string.\<close>
  "Get q k = (case map_of q k of None \<Rightarrow> [] | Some v \<Rightarrow> v)"

fun Decode :: "body \<Rightarrow> Item \<Rightarrow> string + Item" where
  "Decode (BadJSON e) item = Inl e"
| "Decode (Members i t) item =
     Inr \<lparr>ID = (case i of None \<Rightarrow> ID item | Some v \<Rightarrow> v),
          Title = (case t of None \<Rightarrow> Title item | Some v \<Rightarrow> v)\<rparr>"

text \<open>What the JSON encoder writes, as a value rather than as text.\<close>

datatype json = JNull | JNumber int | JString string | JArray "json list"
  | JObject "(string \<times> json) list"

definition jsonItem :: "Item \<Rightarrow> json" where
  "jsonItem item = JObject [(''id'', JNumber (ID item)), (''title'', JString (Title item))]"

fun jsonItems :: "Item slice \<Rightarrow> json" where
  "jsonItems NilSlice = JNull"
| "jsonItems (Slice xs) = JArray (map jsonItem xs)"

datatype chunk = Plain string | Json json

text \<open>
  \<^verbatim>\<open>http.ResponseWriter\<close>: the status line is fixed by the first \<^verbatim>\<open>WriteHeader\<close>, or
  implicitly as 200 by the first write.
\<close>

record ResponseWriter =
  status :: "nat option"
  written :: "chunk list"

definition newResponse :: ResponseWriter where
  "newResponse = \<lparr>status = None, written = []\<rparr>"

definition WriteHeader :: "nat \<Rightarrow> ResponseWriter \<Rightarrow> ResponseWriter" where
  "WriteHeader code w = (case status w of None \<Rightarrow> w\<lparr>status := Some code\<rparr> | Some c \<Rightarrow> w)"

definition Write :: "chunk \<Rightarrow> ResponseWriter \<Rightarrow> ResponseWriter" where
  "Write c w = (let w' = WriteHeader 200 w in w'\<lparr>written := written w' @ [c]\<rparr>)"

definition Error :: "string \<Rightarrow> nat \<Rightarrow> ResponseWriter \<Rightarrow> ResponseWriter" where
  \<comment> \<open>\<^verbatim>\<open>http.Error\<close>\<close>
  "Error msg code w = Write (Plain msg) (WriteHeader code w)"

definition Encode :: "json \<Rightarrow> ResponseWriter \<Rightarrow> ResponseWriter" where
  \<comment> \<open>\<^verbatim>\<open>json.NewEncoder(w).Encode(v)\<close>\<close>
  "Encode v w = Write (Json v) w"

definition StatusOK :: nat where "StatusOK = 200"
definition StatusCreated :: nat where "StatusCreated = 201"
definition StatusBadRequest :: nat where "StatusBadRequest = 400"
definition StatusNotFound :: nat where "StatusNotFound = 404"
definition StatusMethodNotAllowed :: nat where "StatusMethodNotAllowed = 405"
definition StatusInternalServerError :: nat where "StatusInternalServerError = 500"

definition MethodGet :: string where "MethodGet = ''GET''"
definition MethodPost :: string where "MethodPost = ''POST''"
definition MethodPut :: string where "MethodPut = ''PUT''"
definition MethodDelete :: string where "MethodDelete = ''DELETE''"

section \<open>The database\<close>

text \<open>
  The relational database is outside the program. The handlers see it through
  \<^verbatim>\<open>database/sql\<close>: a statement (its text and its arguments) goes in, and an error or a
  result comes out. The model takes the database as a parameter: a state of any type
  \<open>'db\<close> and a driver that answers each kind of call. Arguments keep the Go type they are
  passed with, since a handler may pass the raw query string or a parsed integer.
\<close>

datatype sqlError = ErrNoRows | ErrOther string

fun errorText :: "sqlError \<Rightarrow> string" where
  "errorText ErrNoRows = ''sql: no rows in result set''"
| "errorText (ErrOther m) = m"

datatype arg = ArgString string | ArgInt64 int

text \<open>
  A result set is a cursor: \<^verbatim>\<open>rows.Next\<close> yields the next row until the rows are
  exhausted or the cursor fails, \<^verbatim>\<open>rows.Scan\<close> then decodes the row or fails. The
  cursor's own failure is what \<^verbatim>\<open>rows.Err\<close> would report afterwards.
\<close>

datatype scanned = Scanned int string | ScanFailed string

record Rows =
  pending :: "scanned list"
  cursorErr :: "string option"

record 'db driver =
  queryRowScanID :: "string \<Rightarrow> arg list \<Rightarrow> 'db \<Rightarrow> (sqlError + int) \<times> 'db"
  queryRowScanItem :: "string \<Rightarrow> arg list \<Rightarrow> 'db \<Rightarrow> (sqlError + int \<times> string) \<times> 'db"
  queryRows :: "string \<Rightarrow> arg list \<Rightarrow> 'db \<Rightarrow> (sqlError + Rows) \<times> 'db"
  execStmt :: "string \<Rightarrow> arg list \<Rightarrow> 'db \<Rightarrow> (sqlError + nat) \<times> 'db"

text \<open>
  The process state: the global \<^verbatim>\<open>cache\<close> map, the database, and a log of every
  statement sent to the database (instrumentation of the model, so that "no store
  access" can be stated). Requests are taken one at a time; the mutex around each map
  access is therefore not modelled.
\<close>

record 'db world =
  cache :: "int \<rightharpoonup> Item"
  db :: 'db
  sent :: "(string \<times> arg list) list"

definition QueryRowScanID ::
  "'db driver \<Rightarrow> string \<Rightarrow> arg list \<Rightarrow> 'db world \<Rightarrow> (sqlError + int) \<times> 'db world" where
  \<comment> \<open>\<^verbatim>\<open>db.QueryRow(query, args...).Scan(&item.ID)\<close>\<close>
  "QueryRowScanID drv q args s =
     (case queryRowScanID drv q args (db s) of
        (res, d) \<Rightarrow> (res, s\<lparr>db := d, sent := sent s @ [(q, args)]\<rparr>))"

definition QueryRowScanItem ::
  "'db driver \<Rightarrow> string \<Rightarrow> arg list \<Rightarrow> 'db world \<Rightarrow> (sqlError + int \<times> string) \<times> 'db world" where
  \<comment> \<open>\<^verbatim>\<open>db.QueryRow(query, args...).Scan(&item.ID, &item.Title)\<close>\<close>
  "QueryRowScanItem drv q args s =
     (case queryRowScanItem drv q args (db s) of
        (res, d) \<Rightarrow> (res, s\<lparr>db := d, sent := sent s @ [(q, args)]\<rparr>))"

definition QueryRows ::
  "'db driver \<Rightarrow> string \<Rightarrow> arg list \<Rightarrow> 'db world \<Rightarrow> (sqlError + Rows) \<times> 'db world" where
  \<comment> \<open>\<^verbatim>\<open>db.Query(query, args...)\<close>\<close>
  "QueryRows drv q args s =
     (case queryRows drv q args (db s) of
        (res, d) \<Rightarrow> (res, s\<lparr>db := d, sent := sent s @ [(q, args)]\<rparr>))"

definition Exec ::
  "'db driver \<Rightarrow> string \<Rightarrow> arg list \<Rightarrow> 'db world \<Rightarrow> (sqlError + nat) \<times> 'db world" where
  \<comment> \<open>\<^verbatim>\<open>db.Exec(query, args...)\<close>; the number is the result's count of affected rows.\<close>
  "Exec drv q args s =
     (case execStmt drv q args (db s) of
        (res, d) \<Rightarrow> (res, s\<lparr>db := d, sent := sent s @ [(q, args)]\<rparr>))"

section \<open>Handlers\<close>

definition insertQuery :: string where
  "insertQuery = ''INSERT INTO items (title) VALUES ($1) RETURNING id''"
definition selectQuery :: string where
  "selectQuery = ''SELECT id, title FROM items WHERE id=$1''"
definition selectAllQuery :: string where
  "selectAllQuery = ''SELECT id, title FROM items''"
definition updateQuery :: string where
  "updateQuery = ''UPDATE items SET title = $1 WHERE id = $2''"
definition deleteQuery :: string where
  "deleteQuery = ''DELETE FROM items WHERE id = $1''"

definition createItem ::
  "'db driver \<Rightarrow> ResponseWriter \<Rightarrow> Request \<Rightarrow> 'db world \<Rightarrow> ResponseWriter \<times> 'db world" where
  "createItem drv w r s =
     (case Decode (Body r) zeroItem of
        Inl err \<Rightarrow> (Error err StatusBadRequest w, s)
      | Inr item \<Rightarrow>
          (case QueryRowScanID drv insertQuery [ArgString (Title item)] s of
             (Inl err, s1) \<Rightarrow> (Error (errorText err) StatusInternalServerError w, s1)
           | (Inr newID, s1) \<Rightarrow>
               (let item1 = item\<lparr>ID := newID\<rparr>;
                    s2 = s1\<lparr>cache := (cache s1)(ID item1 \<mapsto> item1)\<rparr>
                in (Encode (jsonItem item1) (WriteHeader StatusCreated w), s2))))"

definition getItem ::
  "'db driver \<Rightarrow> ResponseWriter \<Rightarrow> Request \<Rightarrow> 'db world \<Rightarrow> ResponseWriter \<times> 'db world" where
  "getItem drv w r s =
     (let id = Get (Query r) ''id'';
          idInt = fst (ParseInt id 0 32)
      in case cache s idInt of
           Some itemFromCache \<Rightarrow> (Encode (jsonItem itemFromCache) w, s)
         | None \<Rightarrow>
             (case QueryRowScanItem drv selectQuery [ArgString id] s of
                (Inl err, s1) \<Rightarrow>
                  if err = ErrNoRows then (Error ''Item not found'' StatusNotFound w, s1)
                  else (Error (errorText err) StatusInternalServerError w, s1)
              | (Inr (rowID, rowTitle), s1) \<Rightarrow>
                  (let item = \<lparr>ID = rowID, Title = rowTitle\<rparr>;
                       s2 = s1\<lparr>cache := (cache s1)(ID item \<mapsto> item)\<rparr>
                   in (Encode (jsonItem item) w, s2))))"

text \<open>The loop \<^verbatim>\<open>for rows.Next() { ... rows.Scan ... append }\<close> of \<^verbatim>\<open>getItems\<close>.\<close>

fun scanLoop :: "scanned list \<Rightarrow> Item slice \<Rightarrow> string + Item slice" where
  "scanLoop [] items = Inr items"
| "scanLoop (ScanFailed err # rest) items = Inl err"
| "scanLoop (Scanned rowID rowTitle # rest) items =
     scanLoop rest (append_slice items \<lparr>ID = rowID, Title = rowTitle\<rparr>)"

definition getItems ::
  "'db driver \<Rightarrow> ResponseWriter \<Rightarrow> Request \<Rightarrow> 'db world \<Rightarrow> ResponseWriter \<times> 'db world" where
  "getItems drv w r s =
     (case QueryRows drv selectAllQuery [] s of
        (Inl err, s1) \<Rightarrow> (Error (errorText err) StatusInternalServerError w, s1)
      | (Inr rows, s1) \<Rightarrow>
          (case scanLoop (pending rows) make0 of
             Inl err \<Rightarrow> (Error err StatusInternalServerError w, s1)
           | Inr items \<Rightarrow> (Encode (jsonItems items) w, s1)))"

definition updateItem ::
  "'db driver \<Rightarrow> ResponseWriter \<Rightarrow> Request \<Rightarrow> 'db world \<Rightarrow> ResponseWriter \<times> 'db world" where
  "updateItem drv w r s =
     (let id = Get (Query r) ''id''
      in case Decode (Body r) zeroItem of
           Inl err \<Rightarrow> (Error err StatusBadRequest w, s)
         | Inr item \<Rightarrow>
             (case Exec drv updateQuery [ArgString (Title item), ArgString id] s of
                (Inl err, s1) \<Rightarrow> (Error (errorText err) StatusInternalServerError w, s1)
              | (Inr affected, s1) \<Rightarrow>
                  (let s2 = s1\<lparr>cache := (cache s1)(ID item \<mapsto> item)\<rparr>
                   in (Encode (JString ''Item updated successfully'') (WriteHeader StatusOK w),
                       s2))))"

definition deleteItem ::
  "'db driver \<Rightarrow> ResponseWriter \<Rightarrow> Request \<Rightarrow> 'db world \<Rightarrow> ResponseWriter \<times> 'db world" where
  "deleteItem drv w r s =
     (let id = fst (ParseInt (Get (Query r) ''id'') 0 32)
      in case Exec drv deleteQuery [ArgInt64 id] s of
           (Inl err, s1) \<Rightarrow> (Error (errorText err) StatusInternalServerError w, s1)
         | (Inr affected, s1) \<Rightarrow>
             (let s2 = s1\<lparr>cache := (cache s1)(id := None)\<rparr>
              in (Encode (JString ''Item deleted successfully'') (WriteHeader StatusOK w), s2)))"

definition itemsHandler ::
  "'db driver \<Rightarrow> ResponseWriter \<Rightarrow> Request \<Rightarrow> 'db world \<Rightarrow> ResponseWriter \<times> 'db world" where
  "itemsHandler drv w r s =
     (let id = Get (Query r) ''id''
      in if Method r = MethodPost then createItem drv w r s
         else if Method r = MethodGet then
           (if id = [] then getItems drv w r s else getItem drv w r s)
         else if Method r = MethodPut then updateItem drv w r s
         else if Method r = MethodDelete then deleteItem drv w r s
         else (Error ''Method not Allowed'' StatusMethodNotAllowed w, s))"

section \<open>A reference database\<close>

text \<open>
  Modelled from the spec: the Store of section 4.1 and the schema of section 6 (a table
  with an auto-generated integer key \<^verbatim>\<open>id\<close> and a text column \<^verbatim>\<open>title\<close>); the
  database server is not part of the repository. This in-memory table instantiates the
  driver so that the handlers can be run on concrete requests. Every general theorem
  below is stated for an arbitrary driver, not for this one.
\<close>

record table =
  stored :: "(int \<times> string) list"
  nextID :: int
  reachable :: bool

definition badConnection :: sqlError where
  "badConnection = ErrOther ''driver: bad connection''"

definition badStatement :: sqlError where
  "badStatement = ErrOther ''pq: syntax error''"

definition badInteger :: sqlError where
  "badInteger = ErrOther ''pq: invalid input syntax for type integer''"

definition argID :: "arg \<Rightarrow> int option" where
  \<comment> \<open>The value an argument has for the key column: text must be a decimal numeral that
      fits the 64 bits of the Go field the key is scanned into.\<close>
  "argID a =
     (case a of
        ArgInt64 n \<Rightarrow> Some n
      | ArgString t \<Rightarrow> (case ParseInt t 10 64 of (n, None) \<Rightarrow> Some n | (n, Some e) \<Rightarrow> None))"

definition memQueryRowScanID ::
  "string \<Rightarrow> arg list \<Rightarrow> table \<Rightarrow> (sqlError + int) \<times> table" where
  "memQueryRowScanID q args d =
     (if \<not> reachable d then (Inl badConnection, d)
      else
        (case args of
           [ArgString t] \<Rightarrow>
             if q = insertQuery
             then (Inr (nextID d),
                   d\<lparr>stored := stored d @ [(nextID d, t)], nextID := nextID d + 1\<rparr>)
             else (Inl badStatement, d)
         | _ \<Rightarrow> (Inl badStatement, d)))"

definition memQueryRowScanItem ::
  "string \<Rightarrow> arg list \<Rightarrow> table \<Rightarrow> (sqlError + int \<times> string) \<times> table" where
  "memQueryRowScanItem q args d =
     (if \<not> reachable d then (Inl badConnection, d)
      else
        (case args of
           [a] \<Rightarrow>
             if q = selectQuery then
               (case argID a of
                  None \<Rightarrow> (Inl badInteger, d)
                | Some n \<Rightarrow>
                    (case map_of (stored d) n of
                       None \<Rightarrow> (Inl ErrNoRows, d)
                     | Some t \<Rightarrow> (Inr (n, t), d)))
             else (Inl badStatement, d)
         | _ \<Rightarrow> (Inl badStatement, d)))"

definition memQueryRows :: "string \<Rightarrow> arg list \<Rightarrow> table \<Rightarrow> (sqlError + Rows) \<times> table" where
  "memQueryRows q args d =
     (if \<not> reachable d then (Inl badConnection, d)
      else if q = selectAllQuery \<and> args = []
      then (Inr \<lparr>pending = map (\<lambda>(n, t). Scanned n t) (stored d), cursorErr = None\<rparr>, d)
      else (Inl badStatement, d))"

definition memExecStmt :: "string \<Rightarrow> arg list \<Rightarrow> table \<Rightarrow> (sqlError + nat) \<times> table" where
  "memExecStmt q args d =
     (if \<not> reachable d then (Inl badConnection, d)
      else
        (case args of
           [ArgString t, a] \<Rightarrow>
             if q = updateQuery then
               (case argID a of
                  None \<Rightarrow> (Inl badInteger, d)
                | Some n \<Rightarrow>
                    (Inr (length (filter (\<lambda>row. fst row = n) (stored d))),
                     d\<lparr>stored := map (\<lambda>row. if fst row = n then (n, t) else row) (stored d)\<rparr>))
             else (Inl badStatement, d)
         | [a] \<Rightarrow>
             if q = deleteQuery then
               (case argID a of
                  None \<Rightarrow> (Inl badInteger, d)
                | Some n \<Rightarrow>
                    (Inr (length (filter (\<lambda>row. fst row = n) (stored d))),
                     d\<lparr>stored := filter (\<lambda>row. fst row \<noteq> n) (stored d)\<rparr>))
             else (Inl badStatement, d)
         | _ \<Rightarrow> (Inl badStatement, d)))"

definition memDriver :: "table driver" where
  "memDriver =
     \<lparr>queryRowScanID = memQueryRowScanID, queryRowScanItem = memQueryRowScanItem,
      queryRows = memQueryRows, execStmt = memExecStmt\<rparr>"

definition emptyTable :: table where
  "emptyTable = \<lparr>stored = [], nextID = 1, reachable = True\<rparr>"

definition startWorld :: "table world" where
  \<comment> \<open>The process right after \<^verbatim>\<open>initDB\<close>: an empty cache.\<close>
  "startWorld = \<lparr>cache = Map.empty, db = emptyTable, sent = []\<rparr>"

definition request :: "string \<Rightarrow> string \<Rightarrow> body \<Rightarrow> Request" where
  \<comment> \<open>A request to \<^verbatim>\<open>/items?id=...\<close>; no \<^verbatim>\<open>id\<close> parameter when the string is empty.\<close>
  "request m i b = \<lparr>Method = m, Query = (if i = [] then [] else [(''id'', i)]), Body = b\<rparr>"

definition noBody :: body where
  \<comment> \<open>An empty request body: decoding it fails with \<^verbatim>\<open>EOF\<close>.\<close>
  "noBody = BadJSON ''EOF''"

definition oneRowWorld :: "table world" where
  \<comment> \<open>A table that holds the row \<^verbatim>\<open>(5, "old")\<close>, and an empty cache.\<close>
  "oneRowWorld =
     \<lparr>cache = Map.empty, db = \<lparr>stored = [(5, ''old'')], nextID = 6, reachable = True\<rparr>,
      sent = []\<rparr>"

definition offlineWorld :: "table world" where
  \<comment> \<open>The database cannot be reached: every call fails.\<close>
  "offlineWorld =
     \<lparr>cache = Map.empty, db = \<lparr>stored = [], nextID = 1, reachable = False\<rparr>, sent = []\<rparr>"

definition bigKeyWorld :: "table world" where
  \<comment> \<open>An empty table whose next generated key lies beyond the signed 32-bit range.\<close>
  "bigKeyWorld =
     \<lparr>cache = Map.empty, db = \<lparr>stored = [], nextID = 3000000000, reachable = True\<rparr>,
      sent = []\<rparr>"

definition cannedRows :: "Rows \<Rightarrow> table driver" where
  \<comment> \<open>A driver that answers every \<^verbatim>\<open>db.Query\<close> with the given result set.\<close>
  "cannedRows rows = memDriver\<lparr>queryRows := (\<lambda>q args d. (Inr rows, d))\<rparr>"

section \<open>Auxiliary facts\<close>

lemmas response_defs = newResponse_def WriteHeader_def Write_def Error_def Encode_def
  StatusOK_def StatusCreated_def StatusBadRequest_def StatusNotFound_def
  StatusMethodNotAllowed_def StatusInternalServerError_def

lemmas call_defs = QueryRowScanID_def QueryRowScanItem_def QueryRows_def Exec_def

lemmas mem_defs = memDriver_def memQueryRowScanID_def memQueryRowScanItem_def memQueryRows_def
  memExecStmt_def argID_def badConnection_def badStatement_def badInteger_def emptyTable_def
  startWorld_def oneRowWorld_def offlineWorld_def bigKeyWorld_def cannedRows_def request_def noBody_def Get_def
  insertQuery_def selectQuery_def selectAllQuery_def updateQuery_def deleteQuery_def

lemmas handler_defs = createItem_def getItem_def getItems_def updateItem_def deleteItem_def
  itemsHandler_def zeroItem_def jsonItem_def make0_def
  MethodGet_def MethodPost_def MethodPut_def MethodDelete_def

lemma parse_samples:
  "ParseInt ''5'' 0 32 = (5, None)"
  "ParseInt ''5'' 10 64 = (5, None)"
  "ParseInt ''1'' 0 32 = (1, None)"
  "ParseInt ''1'' 10 64 = (1, None)"
  "ParseInt ''0'' 0 32 = (0, None)"
  "ParseInt ''0'' 10 64 = (0, None)"
  "ParseInt ''abc'' 0 32 = (0, Some ErrSyntax)"
  "ParseInt ''abc'' 10 64 = (0, Some ErrSyntax)"
  "ParseInt ''3000000000'' 0 32 = (2147483647, Some ErrRange)"
  "ParseInt ''3000000000'' 10 64 = (3000000000, None)"
  "ParseInt ''-3000000000'' 0 32 = (- 2147483648, Some ErrRange)"
  "ParseInt ''99999999999'' 0 32 = (2147483647, Some ErrRange)"
  "ParseInt [] 0 32 = (0, Some ErrSyntax)"
  by code_simp+

text \<open>
  A range error comes with the bound of the 32-bit range on the numeral's side; every
  other error comes with the value 0.
\<close>

lemma ParseInt_range_value:
  "snd (ParseInt t 0 32) = Some ErrRange \<Longrightarrow>
     fst (ParseInt t 0 32) = (if hd t = CHR ''-'' then - 2147483648 else 2147483647)"
  by (auto simp: ParseInt_def Let_def split: if_splits prod.splits option.splits numError.splits)

lemma ParseInt_other_zero:
  "snd (ParseInt t b n) = Some e \<Longrightarrow> e \<noteq> ErrRange \<Longrightarrow> fst (ParseInt t b n) = 0"
  by (auto simp: ParseInt_def Let_def split: if_splits prod.splits option.splits numError.splits)

lemma scanLoop_all_scanned:
  "scanLoop (map (\<lambda>(n, t). Scanned n t) rows) (Slice acc) =
     Inr (Slice (acc @ map (\<lambda>(n, t). \<lparr>ID = n, Title = t\<rparr>) rows))"
  by (induction rows arbitrary: acc) (auto split: prod.splits)

lemma scanLoop_scan_failed:
  "scanLoop (map (\<lambda>(n, t). Scanned n t) rows @ ScanFailed e # rest) (Slice acc) = Inl e"
  by (induction rows arbitrary: acc) (auto split: prod.splits)

text \<open>
  Parsing the decimal numeral of a number in the signed 32-bit range gives the number
  back, with no error: every such id can be named by an \<^verbatim>\<open>id\<close> parameter.
\<close>

declare decimalNat.simps [simp del]

lemma digit_cases:
  "(k::nat) < 10 \<Longrightarrow>
     k = 0 \<or> k = 1 \<or> k = 2 \<or> k = 3 \<or> k = 4 \<or> k = 5 \<or> k = 6 \<or> k = 7 \<or> k = 8 \<or> k = 9"
  by arith

lemma digitChar_props:
  assumes "k < 10"
  shows "digitVal (digitChar k) = Some (int k)"
    and "digitChar k \<noteq> CHR ''_''"
    and "digitChar k \<noteq> CHR ''-''"
    and "digitChar k \<noteq> CHR ''+''"
    and "(digitChar k = CHR ''0'') = (k = 0)"
  using digit_cases [OF assms]
  by (auto simp: digitChar_def digitVal_def byte_def)

lemma digitLoop_append:
  "digitLoop b0 b c m (xs @ ys) n us =
     (case digitLoop b0 b c m xs n us of
        Inl e \<Rightarrow> Inl e
      | Inr (n', us') \<Rightarrow> digitLoop b0 b c m ys n' us')"
  by (induction xs arbitrary: n us) (auto simp: Let_def split: option.splits)

lemma digitLoop_digit:
  assumes "k < 10" "0 \<le> a" "a < c" "a * 10 + int k \<le> 4294967295"
  shows "digitLoop True 10 c 4294967295 [digitChar k] a False = Inr (a * 10 + int k, False)"
proof -
  have m1: "(a * 10) mod 2 ^ 64 = a * 10"
    using assms by (intro mod_pos_pos_trivial) auto
  have m2: "(a * 10 + int k) mod 2 ^ 64 = a * 10 + int k"
    using assms by (intro mod_pos_pos_trivial) auto
  show ?thesis
    using assms by (simp add: digitChar_props m1 m2 Let_def)
qed


lemma decimalNat_nonempty: "decimalNat n \<noteq> []"
  by (subst decimalNat.simps) simp

lemma decimalNat_zero: "decimalNat 0 = ''0''"
  by (subst decimalNat.simps) (simp add: digitChar_def)

lemma digitLoop_decimalNat:
  "n \<le> 4294967295 \<Longrightarrow> 4294967295 < c \<Longrightarrow>
     digitLoop True 10 c 4294967295 (decimalNat n) 0 False = Inr (int n, False)"
proof (induction n rule: decimalNat.induct)
  case (1 n)
  show ?case
  proof (cases "n < 10")
    case True
    have "digitLoop True 10 c 4294967295 [digitChar n] 0 False = Inr (0 * 10 + int n, False)"
      using True "1.prems" by (intro digitLoop_digit) auto
    then show ?thesis
      using True by (subst decimalNat.simps) simp
  next
    case False
    have ih: "digitLoop True 10 c 4294967295 (decimalNat (n div 10)) 0 False
        = Inr (int (n div 10), False)"
      using "1.IH" False "1.prems" by simp
    have small: "int (n div 10) * 10 + int (n mod 10) = int n"
      by (metis of_nat_add of_nat_mult of_nat_numeral div_mult_mod_eq)
    have step: "digitLoop True 10 c 4294967295 [digitChar (n mod 10)] (int (n div 10)) False
        = Inr (int (n div 10) * 10 + int (n mod 10), False)"
      using "1.prems" small by (intro digitLoop_digit) auto
    show ?thesis
      using False
      by (subst decimalNat.simps) (simp add: digitLoop_append ih step small del: digitLoop.simps)
  qed
qed

lemma decimalNat_hd:
  "0 < n \<Longrightarrow> \<exists>k. 0 < k \<and> k < 10 \<and> hd (decimalNat n) = digitChar k"
proof (induction n rule: decimalNat.induct)
  case (1 n)
  show ?case
  proof (cases "n < 10")
    case True
    with "1.prems" show ?thesis
      by (subst decimalNat.simps) auto
  next
    case False
    then have "0 < n div 10" by simp
    with "1.IH" False obtain k :: nat
      where k: "0 < k" "k < 10" "hd (decimalNat (n div 10)) = digitChar k"
      by auto
    show ?thesis
      using False k decimalNat_nonempty [of "n div 10"]
      by (subst decimalNat.simps) auto
  qed
qed

lemma decimalNat_hd_plain:
  "hd (decimalNat n) \<noteq> CHR ''-'' \<and> hd (decimalNat n) \<noteq> CHR ''+'' \<and>
   (hd (decimalNat n) = CHR ''0'') = (n = 0)"
proof (cases "n = 0")
  case True
  then show ?thesis by (simp add: decimalNat_zero)
next
  case False
  then obtain k :: nat where k: "0 < k" "k < 10" "hd (decimalNat n) = digitChar k"
    using decimalNat_hd [of n] by auto
  then show ?thesis
    using False digitChar_props(3,4,5) [of k] by simp
qed

lemma ParseUint_decimalNat:
  assumes "n \<le> 4294967295"
  shows "ParseUint (decimalNat n) 0 32 = (int n, None)"
proof (cases "n = 0")
  case True
  then show ?thesis
    by (simp add: decimalNat_zero ParseUint_def maxUint64_def)
next
  case False
  then have nz: "hd (decimalNat n) \<noteq> CHR ''0''"
    using decimalNat_hd_plain [of n] by simp
  have loop: "digitLoop True 10 (maxUint64 div 10 + 1) 4294967295 (decimalNat n) 0 False
      = Inr (int n, False)"
    using assms by (intro digitLoop_decimalNat) (simp_all add: maxUint64_def)
  show ?thesis
    using nz loop by (simp add: ParseUint_def decimalNat_nonempty)
qed

lemma ParseInt_Itoa:
  assumes "- 2147483648 \<le> N" "N \<le> 2147483647"
  shows "ParseInt (Itoa N) 0 32 = (N, None)"
proof (cases "N < 0")
  case True
  have u: "ParseUint (decimalNat (nat (- N))) 0 32 = (- N, None)"
    using ParseUint_decimalNat [of "nat (- N)"] assms True by simp
  show ?thesis
    using True assms
    by (simp add: Itoa_def ParseInt_def u)
next
  case False
  have u: "ParseUint (decimalNat (nat N)) 0 32 = (N, None)"
    using ParseUint_decimalNat [of "nat N"] assms False by simp
  show ?thesis
    using False assms decimalNat_hd_plain [of "nat N"]
    by (simp add: Itoa_def ParseInt_def u decimalNat_nonempty)
qed

lemma Itoa_samples:
  "Itoa 1 = ''1''" "Itoa 5 = ''5''"
  by (simp_all add: Itoa_def decimalNat.simps digitChar_def)

section \<open>The update handler and the cache key\<close>

text \<open>
  C1. The claim: a successful PUT ignores the body's \<^verbatim>\<open>id\<close>, writes the cache entry at
  the id of the query parameter, and so a PUT for a nonexistent id followed by a GET
  for the same id answers 200 with the new title. The code writes \<^verbatim>\<open>cache[item.ID]\<close>
  where \<^verbatim>\<open>item\<close> was decoded from the body and its \<^verbatim>\<open>ID\<close> is never set from the query
  parameter. On an empty table and an empty cache, \<^verbatim>\<open>PUT /items?id=5\<close> with body
  \<^verbatim>\<open>{"title":"new"}\<close> answers 200, leaves key 5 of the cache empty and fills key 0; the
  following \<^verbatim>\<open>GET /items?id=5\<close> misses the cache and answers 404.
\<close>

theorem updateItem_body_without_id_misses_query_key:
  "let put = request ''PUT'' ''5'' (Members None (Some ''new''));
       get = request ''GET'' ''5'' noBody;
       (w1, s1) = itemsHandler memDriver newResponse put startWorld;
       (w2, s2) = itemsHandler memDriver newResponse get s1
   in w1 = \<lparr>status = Some 200, written = [Json (JString ''Item updated successfully'')]\<rparr> \<and>
      cache s1 5 = None \<and> cache s1 0 = Some \<lparr>ID = 0, Title = ''new''\<rparr> \<and>
      w2 = \<lparr>status = Some 404, written = [Plain ''Item not found'']\<rparr>"
  by (simp add: handler_defs mem_defs call_defs response_defs parse_samples Let_def)

text \<open>
  C2. For every PUT whose body decodes to \<open>item\<close> and whose UPDATE succeeds, the state
  after the request is the state before it with the statement sent, the database as
  the driver left it, and the cache overwritten at key \<open>ID item\<close> with \<open>item\<close>: the key
  and the value come from the body alone (the id is 0 when the body has no \<^verbatim>\<open>id\<close>
  member), and the query parameter appears only as the second argument of the UPDATE
  statement.
\<close>

theorem updateItem_caches_under_body_id:
  assumes "Decode (Body r) zeroItem = Inr item"
    and "execStmt drv updateQuery [ArgString (Title item), ArgString (Get (Query r) ''id'')] (db s)
           = (Inr n, d)"
  shows "snd (updateItem drv w r s) =
           s\<lparr>cache := (cache s)(ID item \<mapsto> item), db := d,
             sent := sent s @
               [(updateQuery, [ArgString (Title item), ArgString (Get (Query r) ''id'')])]\<rparr>
         \<and> (\<forall>i t. Body r = Members i t \<longrightarrow>
               item = \<lparr>ID = (case i of None \<Rightarrow> 0 | Some v \<Rightarrow> v),
                       Title = (case t of None \<Rightarrow> [] | Some v \<Rightarrow> v)\<rparr>)"
  using assms
  by (auto simp: updateItem_def Exec_def Let_def zeroItem_def split: option.splits)

text \<open>
  Within one successful request the updated row and the cache key differ: the table's
  row 5 gets the new title while the cache is written at key 0.
\<close>

theorem updateItem_caches_under_body_id_witness:
  "Decode (Body (request ''PUT'' ''5'' (Members None (Some ''new'')))) zeroItem =
     Inr \<lparr>ID = 0, Title = ''new''\<rparr> \<and>
   execStmt memDriver updateQuery [ArgString ''new'', ArgString ''5''] (db oneRowWorld) =
     (Inr 1, \<lparr>stored = [(5, ''new'')], nextID = 6, reachable = True\<rparr>) \<and>
   snd (updateItem memDriver newResponse (request ''PUT'' ''5'' (Members None (Some ''new'')))
          oneRowWorld) =
     \<lparr>cache = [0 \<mapsto> \<lparr>ID = 0, Title = ''new''\<rparr>],
      db = \<lparr>stored = [(5, ''new'')], nextID = 6, reachable = True\<rparr>,
      sent = [(updateQuery, [ArgString ''new'', ArgString ''5''])]\<rparr>"
  using updateItem_caches_under_body_id [of "request ''PUT'' ''5'' (Members None (Some ''new''))"
      "\<lparr>ID = 0, Title = ''new''\<rparr>" memDriver oneRowWorld 1
      "\<lparr>stored = [(5, ''new'')], nextID = 6, reachable = True\<rparr>" newResponse]
  by (simp add: mem_defs zeroItem_def parse_samples)

section \<open>Create, then read\<close>

text \<open>
  C3. The claim: a POST creating an item with store-assigned id \<open>N\<close>, followed by
  \<^verbatim>\<open>GET ?id=N\<close>, is answered from the cache without any store access. The read
  handler computes its cache key with \<^verbatim>\<open>ParseInt(id, 0, 32)\<close>, while the create handler
  caches the item under the id as the store gave it, a 64-bit \<^verbatim>\<open>int\<close>. When the table
  generates the key 3000000000 the POST answers 201 and caches the item under
  3000000000; \<^verbatim>\<open>GET ?id=3000000000\<close> looks at key 2147483647, misses, and sends the
  SELECT to the store; once the row has been removed out-of-band it answers 404 although
  the item is still cached.
\<close>

theorem createItem_then_getItem_hits_cache_counterexample:
  "fst (createItem memDriver newResponse (request ''POST'' [] (Members None (Some ''milk'')))
         bigKeyWorld) =
     \<lparr>status = Some 201,
      written = [Json (JObject [(''id'', JNumber 3000000000), (''title'', JString ''milk'')])]\<rparr> \<and>
   cache (snd (createItem memDriver newResponse
                 (request ''POST'' [] (Members None (Some ''milk''))) bigKeyWorld)) 3000000000 =
     Some \<lparr>ID = 3000000000, Title = ''milk''\<rparr> \<and>
   sent (snd (getItem memDriver newResponse (request ''GET'' ''3000000000'' noBody)
                (snd (createItem memDriver newResponse
                        (request ''POST'' [] (Members None (Some ''milk''))) bigKeyWorld)))) =
     [(insertQuery, [ArgString ''milk'']), (selectQuery, [ArgString ''3000000000''])] \<and>
   fst (getItem memDriver newResponse (request ''GET'' ''3000000000'' noBody)
          ((snd (createItem memDriver newResponse
                   (request ''POST'' [] (Members None (Some ''milk''))) bigKeyWorld))
           \<lparr>db := emptyTable\<rparr>)) =
     \<lparr>status = Some 404, written = [Plain ''Item not found'']\<rparr>"
  by (simp add: handler_defs mem_defs call_defs response_defs parse_samples Let_def)

text \<open>
  C3, amended. For every body that decodes (so for every title), if the INSERT succeeds
  and the store assigns an id \<open>N\<close> within the signed 32-bit range, the POST answers 201
  with \<open>{N, title}\<close>, and a following GET whose \<^verbatim>\<open>id\<close> parameter is the decimal numeral
  of \<open>N\<close> answers 200 with the same item and leaves the whole state as it was: no
  statement is sent, whatever the driver is and whatever has happened to the database
  in between.
\<close>

theorem createItem_then_getItem_hits_cache:
  assumes "Decode (Body r1) zeroItem = Inr item"
    and "queryRowScanID drv insertQuery [ArgString (Title item)] (db s) = (Inr N, d)"
    and "- 2147483648 \<le> N" and "N \<le> 2147483647"
    and "Get (Query r2) ''id'' = Itoa N"
  shows "let (w1, s1) = createItem drv newResponse r1 s;
             created = \<lparr>ID = N, Title = Title item\<rparr>
         in w1 = \<lparr>status = Some 201, written = [Json (jsonItem created)]\<rparr> \<and>
            (\<forall>drv' d'. getItem drv' newResponse r2 (s1\<lparr>db := d'\<rparr>) =
               (\<lparr>status = Some 200, written = [Json (jsonItem created)]\<rparr>, s1\<lparr>db := d'\<rparr>))"
proof -
  have key: "fst (ParseInt (Get (Query r2) ''id'') 0 32) = N"
    using assms(3-5) by (simp add: ParseInt_Itoa)
  show ?thesis
    using assms(1,2) key
    by (auto simp: createItem_def getItem_def QueryRowScanID_def Let_def response_defs
        jsonItem_def)
qed

theorem createItem_then_getItem_hits_cache_witness:
  "Decode (Body (request ''POST'' [] (Members None (Some ''milk'')))) zeroItem =
     Inr \<lparr>ID = 0, Title = ''milk''\<rparr> \<and>
   queryRowScanID memDriver insertQuery [ArgString ''milk''] (db startWorld) =
     (Inr 1, \<lparr>stored = [(1, ''milk'')], nextID = 2, reachable = True\<rparr>) \<and>
   - 2147483648 \<le> (1::int) \<and> (1::int) \<le> 2147483647 \<and>
   Get (Query (request ''GET'' ''1'' noBody)) ''id'' = Itoa 1 \<and>
   fst (getItem memDriver newResponse (request ''GET'' ''1'' noBody)
         ((snd (createItem memDriver newResponse
                  (request ''POST'' [] (Members None (Some ''milk''))) startWorld))
          \<lparr>db := emptyTable\<rparr>)) =
     \<lparr>status = Some 200,
      written = [Json (JObject [(''id'', JNumber 1), (''title'', JString ''milk'')])]\<rparr>"
  using createItem_then_getItem_hits_cache [of "request ''POST'' [] (Members None (Some ''milk''))"
      "\<lparr>ID = 0, Title = ''milk''\<rparr>" memDriver startWorld 1
      "\<lparr>stored = [(1, ''milk'')], nextID = 2, reachable = True\<rparr>" "request ''GET'' ''1'' noBody"]
  by (simp add: mem_defs zeroItem_def Itoa_samples jsonItem_def Let_def split: prod.splits)

section \<open>Store failures\<close>

text \<open>
  C4. In each of the five handlers, when the one store call of the request fails, the
  handler answers 500 (404 in the single-item read when the failure is
  \<^verbatim>\<open>sql.ErrNoRows\<close>) and the cache after the request is the cache before it. In
  particular a GET for an id that is neither cached nor stored answers 404 and caches
  nothing.
\<close>

theorem store_failure_leaves_cache:
  "(\<forall>item e d. Decode (Body r) zeroItem = Inr item \<and>
        queryRowScanID drv insertQuery [ArgString (Title item)] (db s) = (Inl e, d) \<longrightarrow>
        fst (createItem drv newResponse r s) =
          \<lparr>status = Some 500, written = [Plain (errorText e)]\<rparr> \<and>
        cache (snd (createItem drv newResponse r s)) = cache s) \<and>
   (\<forall>e d. cache s (fst (ParseInt (Get (Query r) ''id'') 0 32)) = None \<and>
        queryRowScanItem drv selectQuery [ArgString (Get (Query r) ''id'')] (db s) = (Inl e, d) \<longrightarrow>
        fst (getItem drv newResponse r s) =
          (if e = ErrNoRows then \<lparr>status = Some 404, written = [Plain ''Item not found'']\<rparr>
           else \<lparr>status = Some 500, written = [Plain (errorText e)]\<rparr>) \<and>
        cache (snd (getItem drv newResponse r s)) = cache s) \<and>
   (\<forall>e d. queryRows drv selectAllQuery [] (db s) = (Inl e, d) \<longrightarrow>
        fst (getItems drv newResponse r s) =
          \<lparr>status = Some 500, written = [Plain (errorText e)]\<rparr> \<and>
        cache (snd (getItems drv newResponse r s)) = cache s) \<and>
   (\<forall>item e d. Decode (Body r) zeroItem = Inr item \<and>
        execStmt drv updateQuery [ArgString (Title item), ArgString (Get (Query r) ''id'')] (db s)
          = (Inl e, d) \<longrightarrow>
        fst (updateItem drv newResponse r s) =
          \<lparr>status = Some 500, written = [Plain (errorText e)]\<rparr> \<and>
        cache (snd (updateItem drv newResponse r s)) = cache s) \<and>
   (\<forall>e d. execStmt drv deleteQuery [ArgInt64 (fst (ParseInt (Get (Query r) ''id'') 0 32))] (db s)
          = (Inl e, d) \<longrightarrow>
        fst (deleteItem drv newResponse r s) =
          \<lparr>status = Some 500, written = [Plain (errorText e)]\<rparr> \<and>
        cache (snd (deleteItem drv newResponse r s)) = cache s)"
  by (simp add: createItem_def getItem_def getItems_def updateItem_def deleteItem_def
      call_defs Let_def response_defs)

text \<open>
  With the database unreachable every handler answers 500; on a reachable empty table
  the read of id 5 answers 404. The cache stays empty each time.
\<close>

theorem store_failure_leaves_cache_witness:
  "Decode (Body (request ''PUT'' ''5'' (Members None (Some ''new'')))) zeroItem =
     Inr \<lparr>ID = 0, Title = ''new''\<rparr> \<and>
   queryRowScanID memDriver insertQuery [ArgString ''new''] (db offlineWorld) =
     (Inl badConnection, db offlineWorld) \<and>
   queryRowScanItem memDriver selectQuery [ArgString ''5''] (db offlineWorld) =
     (Inl badConnection, db offlineWorld) \<and>
   queryRows memDriver selectAllQuery [] (db offlineWorld) = (Inl badConnection, db offlineWorld) \<and>
   execStmt memDriver updateQuery [ArgString ''new'', ArgString ''5''] (db offlineWorld) =
     (Inl badConnection, db offlineWorld) \<and>
   execStmt memDriver deleteQuery [ArgInt64 5] (db offlineWorld) =
     (Inl badConnection, db offlineWorld) \<and>
   queryRowScanItem memDriver selectQuery [ArgString ''5''] (db startWorld) =
     (Inl ErrNoRows, db startWorld) \<and>
   fst (createItem memDriver newResponse (request ''PUT'' ''5'' (Members None (Some ''new'')))
          offlineWorld) =
     \<lparr>status = Some 500, written = [Plain ''driver: bad connection'']\<rparr> \<and>
   cache (snd (createItem memDriver newResponse (request ''PUT'' ''5'' (Members None (Some ''new'')))
                 offlineWorld)) = Map.empty \<and>
   fst (getItem memDriver newResponse (request ''PUT'' ''5'' (Members None (Some ''new'')))
          offlineWorld) =
     \<lparr>status = Some 500, written = [Plain ''driver: bad connection'']\<rparr> \<and>
   cache (snd (getItem memDriver newResponse (request ''PUT'' ''5'' (Members None (Some ''new'')))
                 offlineWorld)) = Map.empty \<and>
   fst (getItems memDriver newResponse (request ''PUT'' ''5'' (Members None (Some ''new'')))
          offlineWorld) =
     \<lparr>status = Some 500, written = [Plain ''driver: bad connection'']\<rparr> \<and>
   cache (snd (getItems memDriver newResponse (request ''PUT'' ''5'' (Members None (Some ''new'')))
                 offlineWorld)) = Map.empty \<and>
   fst (updateItem memDriver newResponse (request ''PUT'' ''5'' (Members None (Some ''new'')))
          offlineWorld) =
     \<lparr>status = Some 500, written = [Plain ''driver: bad connection'']\<rparr> \<and>
   cache (snd (updateItem memDriver newResponse (request ''PUT'' ''5'' (Members None (Some ''new'')))
                 offlineWorld)) = Map.empty \<and>
   fst (deleteItem memDriver newResponse (request ''PUT'' ''5'' (Members None (Some ''new'')))
          offlineWorld) =
     \<lparr>status = Some 500, written = [Plain ''driver: bad connection'']\<rparr> \<and>
   cache (snd (deleteItem memDriver newResponse (request ''PUT'' ''5'' (Members None (Some ''new'')))
                 offlineWorld)) = Map.empty \<and>
   fst (getItem memDriver newResponse (request ''GET'' ''5'' noBody) startWorld) =
     \<lparr>status = Some 404, written = [Plain ''Item not found'']\<rparr> \<and>
   cache (snd (getItem memDriver newResponse (request ''GET'' ''5'' noBody) startWorld)) =
     Map.empty"
  using store_failure_leaves_cache [of "request ''PUT'' ''5'' (Members None (Some ''new''))"
      memDriver offlineWorld]
    store_failure_leaves_cache [of "request ''GET'' ''5'' noBody" memDriver startWorld]
  by (simp add: mem_defs zeroItem_def parse_samples)

section \<open>Reading with an id that does not parse\<close>

text \<open>
  C5. The claim: when the \<^verbatim>\<open>id\<close> parameter does not parse as an integer, both the cache
  check and the store query are made for id 0. The cache check is made with the value
  \<^verbatim>\<open>ParseInt\<close> returns, which is 0 on a syntax error but the clamped bound on a range
  error; the store query is always given the raw parameter string. For
  \<^verbatim>\<open>GET /items?id=abc\<close> the statement sent carries the text \<^verbatim>\<open>abc\<close>, and the answer
  differs from that of \<^verbatim>\<open>GET /items?id=0\<close> on the same state; for
  \<^verbatim>\<open>id=99999999999\<close> the parse fails and the cache key is 2147483647.
\<close>

theorem getItem_unparseable_id_counterexample:
  "snd (ParseInt ''abc'' 0 32) = Some ErrSyntax \<and>
   sent (snd (getItem memDriver newResponse (request ''GET'' ''abc'' noBody) startWorld)) =
     [(selectQuery, [ArgString ''abc''])] \<and>
   sent (snd (getItem memDriver newResponse (request ''GET'' ''0'' noBody) startWorld)) =
     [(selectQuery, [ArgString ''0''])] \<and>
   status (fst (getItem memDriver newResponse (request ''GET'' ''abc'' noBody) startWorld)) =
     Some 500 \<and>
   status (fst (getItem memDriver newResponse (request ''GET'' ''0'' noBody) startWorld)) =
     Some 404 \<and>
   ParseInt ''99999999999'' 0 32 = (2147483647, Some ErrRange)"
  by (simp add: handler_defs mem_defs call_defs response_defs parse_samples Let_def)

text \<open>
  C5, amended. For every \<^verbatim>\<open>id\<close> parameter that \<^verbatim>\<open>ParseInt(id, 0, 32)\<close> rejects, the
  cache check is made for the value returned along with the error: the bound of the
  32-bit range on a range error (\<open>-2147483648\<close> for a numeral with a leading minus
  sign, \<open>2147483647\<close> otherwise) and 0 on any other error. An item cached under that key
  is served as it is, with no store access; on a cache miss exactly one statement is
  sent, the SELECT with the raw parameter string as its argument.
\<close>

theorem getItem_unparseable_id:
  assumes "snd (ParseInt (Get (Query r) ''id'') 0 32) = Some e"
  shows "let k = (if e = ErrRange
                  then (if hd (Get (Query r) ''id'') = CHR ''-'' then - 2147483648 else 2147483647)
                  else 0)
         in (\<forall>item. cache s k = Some item \<longrightarrow> getItem drv w r s = (Encode (jsonItem item) w, s)) \<and>
            (cache s k = None \<longrightarrow>
               sent (snd (getItem drv w r s)) =
                 sent s @ [(selectQuery, [ArgString (Get (Query r) ''id'')])])"
proof (cases "e = ErrRange")
  case True
  with assms show ?thesis
    using ParseInt_range_value [of "Get (Query r) ''id''"]
    by (auto simp: getItem_def QueryRowScanItem_def Let_def split: prod.splits sum.splits)
next
  case False
  with assms show ?thesis
    using ParseInt_other_zero [of "Get (Query r) ''id''" 0 32 e]
    by (auto simp: getItem_def QueryRowScanItem_def Let_def split: prod.splits sum.splits)
qed

text \<open>
  \<^verbatim>\<open>?id=abc\<close> is looked up at key 0 and \<^verbatim>\<open>?id=3000000000\<close> at key 2147483647: each is
  served from the cache when that key is filled, and each goes to the store with its
  own text when the cache is empty.
\<close>

theorem getItem_unparseable_id_witness:
  "snd (ParseInt (Get (Query (request ''GET'' ''abc'' noBody)) ''id'') 0 32) = Some ErrSyntax \<and>
   snd (ParseInt (Get (Query (request ''GET'' ''3000000000'' noBody)) ''id'') 0 32) =
     Some ErrRange \<and>
   getItem memDriver newResponse (request ''GET'' ''abc'' noBody)
       (startWorld\<lparr>cache := [0 \<mapsto> \<lparr>ID = 0, Title = ''new''\<rparr>]\<rparr>) =
     (\<lparr>status = Some 200,
       written = [Json (JObject [(''id'', JNumber 0), (''title'', JString ''new'')])]\<rparr>,
      startWorld\<lparr>cache := [0 \<mapsto> \<lparr>ID = 0, Title = ''new''\<rparr>]\<rparr>) \<and>
   getItem memDriver newResponse (request ''GET'' ''3000000000'' noBody)
       (startWorld\<lparr>cache := [2147483647 \<mapsto> \<lparr>ID = 2147483647, Title = ''last''\<rparr>]\<rparr>) =
     (\<lparr>status = Some 200,
       written = [Json (JObject [(''id'', JNumber 2147483647), (''title'', JString ''last'')])]\<rparr>,
      startWorld\<lparr>cache := [2147483647 \<mapsto> \<lparr>ID = 2147483647, Title = ''last''\<rparr>]\<rparr>) \<and>
   sent (snd (getItem memDriver newResponse (request ''GET'' ''abc'' noBody) startWorld)) =
     [(selectQuery, [ArgString ''abc''])] \<and>
   sent (snd (getItem memDriver newResponse (request ''GET'' ''3000000000'' noBody) startWorld)) =
     [(selectQuery, [ArgString ''3000000000''])]"
  using getItem_unparseable_id [of "request ''GET'' ''abc'' noBody" ErrSyntax
      "startWorld\<lparr>cache := [0 \<mapsto> \<lparr>ID = 0, Title = ''new''\<rparr>]\<rparr>" memDriver newResponse]
    getItem_unparseable_id [of "request ''GET'' ''3000000000'' noBody" ErrRange
      "startWorld\<lparr>cache := [2147483647 \<mapsto> \<lparr>ID = 2147483647, Title = ''last''\<rparr>]\<rparr>"
      memDriver newResponse]
    getItem_unparseable_id [of "request ''GET'' ''abc'' noBody" ErrSyntax startWorld memDriver
      newResponse]
    getItem_unparseable_id [of "request ''GET'' ''3000000000'' noBody" ErrRange startWorld
      memDriver newResponse]
  by (simp add: mem_defs parse_samples jsonItem_def response_defs)

section \<open>Update and delete answer 200 whatever the row count\<close>

text \<open>
  C6. For every PUT whose body decodes and for every DELETE, if the statement executes
  without error the answer is 200 with the confirmation message, for every number \<open>n\<close>
  of affected rows the driver reports: the answer does not depend on \<open>n\<close>.
\<close>

theorem update_delete_status_ignores_row_count:
  "(\<forall>item n d. Decode (Body r) zeroItem = Inr item \<and>
        execStmt drv updateQuery [ArgString (Title item), ArgString (Get (Query r) ''id'')] (db s)
          = (Inr n, d) \<longrightarrow>
        fst (updateItem drv newResponse r s) =
          \<lparr>status = Some 200, written = [Json (JString ''Item updated successfully'')]\<rparr>) \<and>
   (\<forall>n d. execStmt drv deleteQuery [ArgInt64 (fst (ParseInt (Get (Query r) ''id'') 0 32))] (db s)
          = (Inr n, d) \<longrightarrow>
        fst (deleteItem drv newResponse r s) =
          \<lparr>status = Some 200, written = [Json (JString ''Item deleted successfully'')]\<rparr>)"
  by (simp add: updateItem_def deleteItem_def call_defs Let_def response_defs)

text \<open>
  On the table holding row 5 the statements affect one row, on the empty table none;
  the four answers are the same two confirmations.
\<close>

theorem update_delete_status_ignores_row_count_witness:
  "Decode (Body (request ''PUT'' ''5'' (Members None (Some ''new'')))) zeroItem =
     Inr \<lparr>ID = 0, Title = ''new''\<rparr> \<and>
   fst (execStmt memDriver updateQuery [ArgString ''new'', ArgString ''5''] (db oneRowWorld)) =
     Inr 1 \<and>
   fst (execStmt memDriver updateQuery [ArgString ''new'', ArgString ''5''] (db startWorld)) =
     Inr 0 \<and>
   fst (execStmt memDriver deleteQuery [ArgInt64 5] (db oneRowWorld)) = Inr 1 \<and>
   fst (execStmt memDriver deleteQuery [ArgInt64 5] (db startWorld)) = Inr 0 \<and>
   fst (updateItem memDriver newResponse (request ''PUT'' ''5'' (Members None (Some ''new'')))
         oneRowWorld) =
     \<lparr>status = Some 200, written = [Json (JString ''Item updated successfully'')]\<rparr> \<and>
   fst (updateItem memDriver newResponse (request ''PUT'' ''5'' (Members None (Some ''new'')))
         startWorld) =
     \<lparr>status = Some 200, written = [Json (JString ''Item updated successfully'')]\<rparr> \<and>
   fst (deleteItem memDriver newResponse (request ''PUT'' ''5'' (Members None (Some ''new'')))
         oneRowWorld) =
     \<lparr>status = Some 200, written = [Json (JString ''Item deleted successfully'')]\<rparr> \<and>
   fst (deleteItem memDriver newResponse (request ''PUT'' ''5'' (Members None (Some ''new'')))
         startWorld) =
     \<lparr>status = Some 200, written = [Json (JString ''Item deleted successfully'')]\<rparr>"
  using update_delete_status_ignores_row_count
      [of "request ''PUT'' ''5'' (Members None (Some ''new''))" memDriver oneRowWorld]
    update_delete_status_ignores_row_count
      [of "request ''PUT'' ''5'' (Members None (Some ''new''))" memDriver startWorld]
  by (simp add: mem_defs zeroItem_def parse_samples)

section \<open>Delete, then read\<close>

text \<open>
  C7. The claim: for every id \<open>N\<close>, after a successful \<^verbatim>\<open>DELETE ?id=N\<close> the cache has no
  entry for key \<open>N\<close>. The delete handler removes the key \<^verbatim>\<open>ParseInt(id, 0, 32)\<close> returns,
  error or not. After \<^verbatim>\<open>PUT ?id=1\<close> with body \<^verbatim>\<open>{"id":3000000000,"title":"x"}\<close> the cache
  holds key 3000000000; \<^verbatim>\<open>DELETE ?id=3000000000\<close> then answers 200, sends the DELETE for
  id 2147483647, and leaves the cache entry for 3000000000 where it was.
\<close>

theorem deleteItem_then_getItem_misses_counterexample:
  "fst (itemsHandler memDriver newResponse (request ''DELETE'' ''3000000000'' noBody)
          (snd (itemsHandler memDriver newResponse
                  (request ''PUT'' ''1'' (Members (Some 3000000000) (Some ''x''))) startWorld))) =
     \<lparr>status = Some 200, written = [Json (JString ''Item deleted successfully'')]\<rparr> \<and>
   sent (snd (itemsHandler memDriver newResponse (request ''DELETE'' ''3000000000'' noBody)
          (snd (itemsHandler memDriver newResponse
                  (request ''PUT'' ''1'' (Members (Some 3000000000) (Some ''x''))) startWorld)))) =
     [(updateQuery, [ArgString ''x'', ArgString ''1'']), (deleteQuery, [ArgInt64 2147483647])] \<and>
   cache (snd (itemsHandler memDriver newResponse (request ''DELETE'' ''3000000000'' noBody)
          (snd (itemsHandler memDriver newResponse
                  (request ''PUT'' ''1'' (Members (Some 3000000000) (Some ''x''))) startWorld))))
       3000000000 =
     Some \<lparr>ID = 3000000000, Title = ''x''\<rparr>"
  by (simp add: handler_defs mem_defs call_defs response_defs parse_samples Let_def)

text \<open>
  C7, amended. For every id \<open>N\<close> within the signed 32-bit range, after a successful
  DELETE whose \<^verbatim>\<open>id\<close> parameter is the decimal numeral of \<open>N\<close> the statement sent is the
  DELETE for \<open>N\<close> and the cache is the old cache with key \<open>N\<close> removed (which changes
  nothing when the key was absent), so it has no entry for \<open>N\<close>. A following GET with
  the same parameter therefore misses the cache, sends the SELECT to the store, and
  answers 404 when the store reports no row.
\<close>

theorem deleteItem_then_getItem_misses:
  assumes "- 2147483648 \<le> N" and "N \<le> 2147483647"
    and "Get (Query r) ''id'' = Itoa N"
    and "execStmt drv deleteQuery [ArgInt64 N] (db s) = (Inr n, d)"
  shows "let (w1, s1) = deleteItem drv newResponse r s
         in sent s1 = sent s @ [(deleteQuery, [ArgInt64 N])] \<and>
            cache s1 = (cache s)(N := None) \<and> cache s1 N = None \<and>
            (cache s N = None \<longrightarrow> cache s1 = cache s) \<and>
            (\<forall>drv' r' d'.
               Get (Query r') ''id'' = Itoa N \<and>
               queryRowScanItem drv' selectQuery [ArgString (Itoa N)] (db s1)
                 = (Inl ErrNoRows, d') \<longrightarrow>
               getItem drv' newResponse r' s1 =
                 (\<lparr>status = Some 404, written = [Plain ''Item not found'']\<rparr>,
                  s1\<lparr>db := d', sent := sent s1 @ [(selectQuery, [ArgString (Itoa N)])]\<rparr>))"
proof -
  have key: "fst (ParseInt (Itoa N) 0 32) = N"
    using assms(1,2) by (simp add: ParseInt_Itoa)
  show ?thesis
    using assms(3,4) key
    by (auto simp: deleteItem_def getItem_def call_defs Let_def response_defs)
qed

text \<open>Row 5 is stored and cached; after \<^verbatim>\<open>DELETE ?id=5\<close>, \<^verbatim>\<open>GET ?id=5\<close> answers 404.\<close>

theorem deleteItem_then_getItem_misses_witness:
  "- 2147483648 \<le> (5::int) \<and> (5::int) \<le> 2147483647 \<and>
   Get (Query (request ''DELETE'' ''5'' noBody)) ''id'' = Itoa 5 \<and>
   Get (Query (request ''GET'' ''5'' noBody)) ''id'' = Itoa 5 \<and>
   execStmt memDriver deleteQuery [ArgInt64 5]
       (db (oneRowWorld\<lparr>cache := [5 \<mapsto> \<lparr>ID = 5, Title = ''old''\<rparr>]\<rparr>)) =
     (Inr 1, \<lparr>stored = [], nextID = 6, reachable = True\<rparr>) \<and>
   cache (snd (deleteItem memDriver newResponse (request ''DELETE'' ''5'' noBody)
                 (oneRowWorld\<lparr>cache := [5 \<mapsto> \<lparr>ID = 5, Title = ''old''\<rparr>]\<rparr>))) = Map.empty \<and>
   fst (getItem memDriver newResponse (request ''GET'' ''5'' noBody)
          (snd (deleteItem memDriver newResponse (request ''DELETE'' ''5'' noBody)
                  (oneRowWorld\<lparr>cache := [5 \<mapsto> \<lparr>ID = 5, Title = ''old''\<rparr>]\<rparr>)))) =
     \<lparr>status = Some 404, written = [Plain ''Item not found'']\<rparr>"
  using deleteItem_then_getItem_misses [of 5 "request ''DELETE'' ''5'' noBody" memDriver
      "oneRowWorld\<lparr>cache := [5 \<mapsto> \<lparr>ID = 5, Title = ''old''\<rparr>]\<rparr>" 1
      "\<lparr>stored = [], nextID = 6, reachable = True\<rparr>"]
  by (simp add: mem_defs parse_samples Itoa_samples deleteItem_def call_defs response_defs Let_def
      split: prod.splits)

section \<open>Reading all items\<close>

text \<open>
  C8. The read-all handler leaves the cache as it is and its answer does not depend on
  the cache: run with any other cache \<open>c\<close>, it gives the same response and the same
  state but for \<open>c\<close>. It always sends exactly the one SELECT over all rows. When the
  query fails the answer is 500; when it succeeds and delivers the rows, the answer is
  200 with the rows as a JSON array in the store's order, which for no rows is the
  empty array and not \<^verbatim>\<open>null\<close>.
\<close>

theorem getItems_bypasses_cache:
  "cache (snd (getItems drv w r s)) = cache s \<and>
   getItems drv w r (s\<lparr>cache := c\<rparr>) =
     (fst (getItems drv w r s), (snd (getItems drv w r s))\<lparr>cache := c\<rparr>) \<and>
   sent (snd (getItems drv w r s)) = sent s @ [(selectAllQuery, [])] \<and>
   (\<forall>e d. queryRows drv selectAllQuery [] (db s) = (Inl e, d) \<longrightarrow>
      fst (getItems drv newResponse r s) =
        \<lparr>status = Some 500, written = [Plain (errorText e)]\<rparr>) \<and>
   (\<forall>rows d.
      queryRows drv selectAllQuery [] (db s) =
        (Inr \<lparr>pending = map (\<lambda>(n, t). Scanned n t) rows, cursorErr = None\<rparr>, d) \<longrightarrow>
      fst (getItems drv newResponse r s) =
        \<lparr>status = Some 200,
         written = [Json (JArray (map (\<lambda>(n, t). jsonItem \<lparr>ID = n, Title = t\<rparr>) rows))]\<rparr>) \<and>
   (\<forall>d. queryRows drv selectAllQuery [] (db s) = (Inr \<lparr>pending = [], cursorErr = None\<rparr>, d) \<longrightarrow>
      written (fst (getItems drv newResponse r s)) = [Json (JArray [])] \<and>
      written (fst (getItems drv newResponse r s)) \<noteq> [Json JNull])"
  by (auto simp: getItems_def QueryRows_def make0_def scanLoop_all_scanned response_defs
      split: prod.splits sum.splits)

theorem getItems_bypasses_cache_witness:
  "queryRows memDriver selectAllQuery [] (db offlineWorld) = (Inl badConnection, db offlineWorld) \<and>
   queryRows memDriver selectAllQuery [] (db oneRowWorld) =
     (Inr \<lparr>pending = map (\<lambda>(n, t). Scanned n t) [(5, ''old'')], cursorErr = None\<rparr>,
      db oneRowWorld) \<and>
   queryRows memDriver selectAllQuery [] (db startWorld) =
     (Inr \<lparr>pending = [], cursorErr = None\<rparr>, db startWorld) \<and>
   fst (getItems memDriver newResponse (request ''GET'' [] noBody) offlineWorld) =
     \<lparr>status = Some 500, written = [Plain ''driver: bad connection'']\<rparr> \<and>
   fst (getItems memDriver newResponse (request ''GET'' [] noBody) oneRowWorld) =
     \<lparr>status = Some 200,
      written = [Json (JArray [JObject [(''id'', JNumber 5), (''title'', JString ''old'')]])]\<rparr> \<and>
   written (fst (getItems memDriver newResponse (request ''GET'' [] noBody) startWorld)) =
     [Json (JArray [])]"
proof -
  let ?get = "request ''GET'' [] noBody"
  have q1: "queryRows memDriver selectAllQuery [] (db offlineWorld) =
      (Inl badConnection, db offlineWorld)"
    by (simp add: mem_defs)
  have q2: "queryRows memDriver selectAllQuery [] (db oneRowWorld) =
      (Inr \<lparr>pending = map (\<lambda>(n, t). Scanned n t) [(5, ''old'')], cursorErr = None\<rparr>,
       db oneRowWorld)"
    by (simp add: mem_defs)
  have q3: "queryRows memDriver selectAllQuery [] (db startWorld) =
      (Inr \<lparr>pending = [], cursorErr = None\<rparr>, db startWorld)"
    by (simp add: mem_defs)
  from getItems_bypasses_cache [of memDriver newResponse ?get offlineWorld Map.empty] q1
  have a1: "fst (getItems memDriver newResponse ?get offlineWorld) =
      \<lparr>status = Some 500, written = [Plain (errorText badConnection)]\<rparr>"
    by blast
  from getItems_bypasses_cache [of memDriver newResponse ?get oneRowWorld Map.empty] q2
  have a2: "fst (getItems memDriver newResponse ?get oneRowWorld) =
      \<lparr>status = Some 200,
       written = [Json (JArray (map (\<lambda>(n, t). jsonItem \<lparr>ID = n, Title = t\<rparr>) [(5, ''old'')]))]\<rparr>"
    by blast
  from getItems_bypasses_cache [of memDriver newResponse ?get startWorld Map.empty] q3
  have a3: "written (fst (getItems memDriver newResponse ?get startWorld)) = [Json (JArray [])]"
    by blast
  from q1 q2 q3 a1 a2 a3 show ?thesis
    by (simp add: jsonItem_def badConnection_def)
qed

section \<open>The router\<close>

text \<open>
  C9. The router dispatches on the method and on whether the \<^verbatim>\<open>id\<close> parameter is
  non-empty: POST runs the create handler, GET with an empty \<^verbatim>\<open>id\<close> the read-all
  handler, GET with a non-empty \<^verbatim>\<open>id\<close> the single read, PUT the update handler and
  DELETE the delete handler. Any other method is answered 405 and the state (cache,
  database, statements sent) is left as it was.
\<close>

theorem itemsHandler_dispatch:
  "(Method r = ''POST'' \<longrightarrow> itemsHandler drv w r s = createItem drv w r s) \<and>
   (Method r = ''GET'' \<and> Get (Query r) ''id'' = [] \<longrightarrow>
      itemsHandler drv w r s = getItems drv w r s) \<and>
   (Method r = ''GET'' \<and> Get (Query r) ''id'' \<noteq> [] \<longrightarrow>
      itemsHandler drv w r s = getItem drv w r s) \<and>
   (Method r = ''PUT'' \<longrightarrow> itemsHandler drv w r s = updateItem drv w r s) \<and>
   (Method r = ''DELETE'' \<longrightarrow> itemsHandler drv w r s = deleteItem drv w r s) \<and>
   (Method r \<noteq> ''POST'' \<and> Method r \<noteq> ''GET'' \<and> Method r \<noteq> ''PUT'' \<and> Method r \<noteq> ''DELETE'' \<longrightarrow>
      itemsHandler drv newResponse r s =
        (\<lparr>status = Some 405, written = [Plain ''Method not Allowed'']\<rparr>, s))"
  by (simp add: itemsHandler_def Let_def MethodGet_def MethodPost_def MethodPut_def
      MethodDelete_def response_defs)

theorem itemsHandler_dispatch_witness:
  "itemsHandler memDriver newResponse (request ''POST'' [] (Members None (Some ''milk''))) startWorld
     = createItem memDriver newResponse (request ''POST'' [] (Members None (Some ''milk''))) startWorld \<and>
   itemsHandler memDriver newResponse (request ''GET'' [] noBody) startWorld
     = getItems memDriver newResponse (request ''GET'' [] noBody) startWorld \<and>
   itemsHandler memDriver newResponse (request ''GET'' ''5'' noBody) startWorld
     = getItem memDriver newResponse (request ''GET'' ''5'' noBody) startWorld \<and>
   itemsHandler memDriver newResponse (request ''PUT'' ''5'' (Members None (Some ''new''))) startWorld
     = updateItem memDriver newResponse (request ''PUT'' ''5'' (Members None (Some ''new''))) startWorld \<and>
   itemsHandler memDriver newResponse (request ''DELETE'' ''5'' noBody) startWorld
     = deleteItem memDriver newResponse (request ''DELETE'' ''5'' noBody) startWorld \<and>
   itemsHandler memDriver newResponse (request ''PATCH'' ''5'' (Members None (Some ''new''))) startWorld
     = (\<lparr>status = Some 405, written = [Plain ''Method not Allowed'']\<rparr>, startWorld)"
  using itemsHandler_dispatch [of "request ''POST'' [] (Members None (Some ''milk''))"
      memDriver newResponse startWorld]
    itemsHandler_dispatch [of "request ''GET'' [] noBody" memDriver newResponse startWorld]
    itemsHandler_dispatch [of "request ''GET'' ''5'' noBody" memDriver newResponse startWorld]
    itemsHandler_dispatch [of "request ''PUT'' ''5'' (Members None (Some ''new''))"
      memDriver newResponse startWorld]
    itemsHandler_dispatch [of "request ''DELETE'' ''5'' noBody" memDriver newResponse startWorld]
    itemsHandler_dispatch [of "request ''PATCH'' ''5'' (Members None (Some ''new''))"
      memDriver newResponse startWorld]
  by (simp add: request_def Get_def)

section \<open>A cursor that fails during iteration\<close>

text \<open>
  C10. In the read-all handler, when the query succeeds and the cursor then fails after
  delivering some rows (so that \<^verbatim>\<open>rows.Next\<close> returns false and \<^verbatim>\<open>rows.Err\<close> would
  report the failure), the loop ends normally and the answer is 200 with exactly the
  rows delivered before the failure, as if they were all the rows there are. A row
  whose \<^verbatim>\<open>Scan\<close> fails, in contrast, ends the request with 500.
\<close>

theorem getItems_cursor_failure_is_200:
  "(\<forall>rows e d.
      queryRows drv selectAllQuery [] (db s) =
        (Inr \<lparr>pending = map (\<lambda>(n, t). Scanned n t) rows, cursorErr = Some e\<rparr>, d) \<longrightarrow>
      fst (getItems drv newResponse r s) =
        \<lparr>status = Some 200,
         written = [Json (JArray (map (\<lambda>(n, t). jsonItem \<lparr>ID = n, Title = t\<rparr>) rows))]\<rparr>) \<and>
   (\<forall>rows e rest ce d.
      queryRows drv selectAllQuery [] (db s) =
        (Inr \<lparr>pending = map (\<lambda>(n, t). Scanned n t) rows @ ScanFailed e # rest, cursorErr = ce\<rparr>, d)
      \<longrightarrow>
      fst (getItems drv newResponse r s) = \<lparr>status = Some 500, written = [Plain e]\<rparr>)"
  by (auto simp: getItems_def QueryRows_def make0_def scanLoop_all_scanned scanLoop_scan_failed
      response_defs split: prod.splits sum.splits)

text \<open>
  The cursor delivers row 1 and then loses the connection before row 2: the answer is
  200 with row 1 alone. When the second row fails to scan instead, the answer is 500.
\<close>

theorem getItems_cursor_failure_is_200_witness:
  "queryRows (cannedRows \<lparr>pending = [Scanned 1 ''milk''], cursorErr = Some ''unexpected EOF''\<rparr>)
       selectAllQuery [] (db startWorld) =
     (Inr \<lparr>pending = map (\<lambda>(n, t). Scanned n t) [(1, ''milk'')],
           cursorErr = Some ''unexpected EOF''\<rparr>, db startWorld) \<and>
   fst (getItems (cannedRows \<lparr>pending = [Scanned 1 ''milk''], cursorErr = Some ''unexpected EOF''\<rparr>)
          newResponse (request ''GET'' [] noBody) startWorld) =
     \<lparr>status = Some 200,
      written = [Json (JArray [JObject [(''id'', JNumber 1), (''title'', JString ''milk'')]])]\<rparr> \<and>
   queryRows (cannedRows \<lparr>pending = [Scanned 1 ''milk'', ScanFailed ''converting NULL to string''],
                          cursorErr = None\<rparr>)
       selectAllQuery [] (db startWorld) =
     (Inr \<lparr>pending = map (\<lambda>(n, t). Scanned n t) [(1, ''milk'')]
                      @ ScanFailed ''converting NULL to string'' # [],
           cursorErr = None\<rparr>, db startWorld) \<and>
   fst (getItems (cannedRows \<lparr>pending = [Scanned 1 ''milk'', ScanFailed ''converting NULL to string''],
                              cursorErr = None\<rparr>)
          newResponse (request ''GET'' [] noBody) startWorld) =
     \<lparr>status = Some 500, written = [Plain ''converting NULL to string'']\<rparr>"
proof -
  let ?broken = "cannedRows \<lparr>pending = [Scanned 1 ''milk''], cursorErr = Some ''unexpected EOF''\<rparr>"
  let ?null = "cannedRows \<lparr>pending = [Scanned 1 ''milk'', ScanFailed ''converting NULL to string''],
                            cursorErr = None\<rparr>"
  let ?get = "request ''GET'' [] noBody"
  have q1: "queryRows ?broken selectAllQuery [] (db startWorld) =
      (Inr \<lparr>pending = map (\<lambda>(n, t). Scanned n t) [(1, ''milk'')],
            cursorErr = Some ''unexpected EOF''\<rparr>, db startWorld)"
    by (simp add: cannedRows_def)
  have q2: "queryRows ?null selectAllQuery [] (db startWorld) =
      (Inr \<lparr>pending = map (\<lambda>(n, t). Scanned n t) [(1, ''milk'')]
                       @ ScanFailed ''converting NULL to string'' # [],
            cursorErr = None\<rparr>, db startWorld)"
    by (simp add: cannedRows_def)
  from getItems_cursor_failure_is_200 [of ?broken startWorld ?get] q1
  have a1: "fst (getItems ?broken newResponse ?get startWorld) =
      \<lparr>status = Some 200,
       written = [Json (JArray (map (\<lambda>(n, t). jsonItem \<lparr>ID = n, Title = t\<rparr>) [(1, ''milk'')]))]\<rparr>"
    by blast
  from getItems_cursor_failure_is_200 [of ?null startWorld ?get] q2
  have a2: "fst (getItems ?null newResponse ?get startWorld) =
      \<lparr>status = Some 500, written = [Plain ''converting NULL to string'']\<rparr>"
    by blast
  from q1 q2 a1 a2 show ?thesis
    by (simp add: jsonItem_def)
qed

end
